theory Spec2Isabelle
  imports Complex_Main "HOL-Library.Stream"
begin

section \<open>SPECT collimator simulation: the transport kernel and the metrics engine\<close>

text \<open>
  A shallow embedding of \<^verbatim>\<open>python-simulation/spect-simulation.py\<close>. Python floats are
  modelled as \<^typ>\<open>real\<close>, Python integers as \<^typ>\<open>int\<close>, dictionaries with a fixed set of
  keys as records, the metrics dictionary (whose key set differs between the two return
  statements of \<^verbatim>\<open>calculate_metrics\<close>) as an association list, and exceptions as the
  left summand of a result type.
\<close>

subsection \<open>Data model\<close>

record CollimatorParams =
  hole_diameter :: real
  hole_length :: real
  septal_thickness :: real
  material :: string
  num_holes_x :: int
  num_holes_y :: int

record MaterialProperties =
  density :: real
  attenuation_coefficient :: real
  name :: string

text \<open>The material database, a dictionary keyed by the material's name.\<close>

definition MATERIALS :: "string \<rightharpoonup> MaterialProperties" where
  "MATERIALS =
     [''lead'' \<mapsto> \<lparr>density = 11.34, attenuation_coefficient = 23.0, name = ''Lead''\<rparr>,
      ''tungsten'' \<mapsto> \<lparr>density = 19.25, attenuation_coefficient = 18.0, name = ''Tungsten''\<rparr>,
      ''brass'' \<mapsto> \<lparr>density = 8.5, attenuation_coefficient = 8.0, name = ''Brass''\<rparr>]"

text \<open>
  The exceptions the kernel can raise. \<open>NonFiniteValue\<close> stands for a numpy division by
  zero, which does not raise but yields \<^verbatim>\<open>inf\<close> or \<^verbatim>\<open>nan\<close>; the reals have no such
  value, so the model stops there instead of continuing with a made-up number.
\<close>

datatype py_error = KeyError string | ZeroDivisionError | NonFiniteValue

text \<open>
  \<^verbatim>\<open>SPECTSimulator.__init__\<close>: stores the parameters and looks the material up; a
  missing dictionary key raises \<^verbatim>\<open>KeyError\<close>. The dataclass \<^verbatim>\<open>CollimatorParams\<close> has the
  generated constructor only, which stores its arguments unchanged: it is the record
  constructor.
\<close>

record SPECTSimulator =
  params :: CollimatorParams
  sim_material :: MaterialProperties

definition SPECTSimulator_init :: "CollimatorParams \<Rightarrow> py_error + SPECTSimulator" where
  "SPECTSimulator_init p =
     (case MATERIALS (material p) of
        None \<Rightarrow> Inl (KeyError (material p))
      | Some m \<Rightarrow> Inr \<lparr>params = p, sim_material = m\<rparr>)"

record photon =
  photon_x :: real
  photon_y :: real
  photon_energy :: real

record sim_result =
  detected_photons :: "photon list"
  total_photons :: int
  detected_count :: int
  septal_penetration :: int
  geometric_rejection :: int

subsection \<open>The random generator\<close>

text \<open>
  numpy's global generator is a hidden state that every draw advances. It is modelled as
  an explicit state: the stream of raw uniform variates of \<open>[0, 1)\<close> still to come and the
  stream of standard normal variates still to come. \<^verbatim>\<open>np.random.uniform(low, high)\<close> is
  \<open>low + (high - low) * u\<close> for the next raw variate \<open>u\<close>, \<^verbatim>\<open>np.random.random()\<close> is the
  next raw variate, and \<^verbatim>\<open>np.random.normal(loc, scale)\<close> is \<open>loc + scale * z\<close> for the next
  standard normal variate \<open>z\<close>.
\<close>

record rng_state =
  uniforms :: "real stream"
  normals :: "real stream"

definition uniform :: "real \<Rightarrow> real \<Rightarrow> rng_state \<Rightarrow> real \<times> rng_state" where
  "uniform low high g =
     (low + (high - low) * shd (uniforms g), g\<lparr>uniforms := stl (uniforms g)\<rparr>)"

definition random :: "rng_state \<Rightarrow> real \<times> rng_state" where
  "random g = (shd (uniforms g), g\<lparr>uniforms := stl (uniforms g)\<rparr>)"

definition normal :: "real \<Rightarrow> real \<Rightarrow> rng_state \<Rightarrow> real \<times> rng_state" where
  "normal loc scale g =
     (loc + scale * shd (normals g), g\<lparr>normals := stl (normals g)\<rparr>)"

subsection \<open>The transport kernel\<close>

text \<open>Division of two Python floats: a zero divisor raises.\<close>

definition truediv :: "real \<Rightarrow> real \<Rightarrow> py_error + real" where
  "truediv a b = (if b = 0 then Inl ZeroDivisionError else Inr (a / b))"

text \<open>Division of two numpy scalars: a zero divisor yields a non-finite value.\<close>

definition np_divide :: "real \<Rightarrow> real \<Rightarrow> py_error + real" where
  "np_divide a b = (if b = 0 then Inl NonFiniteValue else Inr (a / b))"

definition calculate_septal_path :: "SPECTSimulator \<Rightarrow> real \<Rightarrow> real \<Rightarrow> real" where
  "calculate_septal_path self theta phi =
     (if \<bar>theta\<bar> < 1 / 10 ^ 6 then 0
      else septal_thickness (params self) * \<bar>tan theta\<bar>)"

datatype outcome = GeometricRejection | SeptalAbsorption | Detected photon

text \<open>
  The body of the trial loop after the four draws of direction and entry position: the
  hole index (computed, never used, but its division can raise), the acceptance test, the
  septal attenuation test with its own draw, and the propagation to the detector plane
  with the draw of the energy. The unused \<^verbatim>\<open>path_length\<close> has no failure branch and is
  left out.
\<close>

definition transport :: "SPECTSimulator \<Rightarrow> real \<Rightarrow> real \<Rightarrow> real \<Rightarrow> real \<Rightarrow> real \<Rightarrow> real
    \<Rightarrow> rng_state \<Rightarrow> py_error + (outcome \<times> rng_state)" where
  "transport self detector_width detector_height theta phi x0 y0 g =
     (let p = params self;
          dx = sin theta * cos phi;
          dy = sin theta * sin phi;
          dz = cos theta
      in case truediv (x0 + detector_width / 2) (hole_diameter p + septal_thickness p) of
           Inl e \<Rightarrow> Inl e
         | Inr hole_x \<Rightarrow>
      (case truediv (y0 + detector_height / 2) (hole_diameter p + septal_thickness p) of
           Inl e \<Rightarrow> Inl e
         | Inr hole_y \<Rightarrow>
      (case truediv (hole_diameter p) (2 * hole_length p) of
           Inl e \<Rightarrow> Inl e
         | Inr ratio \<Rightarrow>
      (let acceptance_angle = arctan ratio
       in if \<bar>theta\<bar> > acceptance_angle then Inr (GeometricRejection, g)
          else
            (let septal_path_length = calculate_septal_path self theta phi;
                 attenuation_prob =
                   exp (- attenuation_coefficient (sim_material self) * septal_path_length / 10);
                 (u, g1) = random g
             in if u > attenuation_prob then Inr (SeptalAbsorption, g1)
                else
                  (case np_divide (dx * hole_length p) dz of
                     Inl e \<Rightarrow> Inl e
                   | Inr off_x \<Rightarrow>
                  (case np_divide (dy * hole_length p) dz of
                     Inl e \<Rightarrow> Inl e
                   | Inr off_y \<Rightarrow>
                  (let x_final = x0 + off_x;
                       y_final = y0 + off_y;
                       (energy, g2) = normal 140 (140 * 0.1 / 2.355) g1
                   in Inr (Detected \<lparr>photon_x = x_final, photon_y = y_final,
                                      photon_energy = energy\<rparr>, g2)))))))))"

text \<open>One trial: the four draws, in the order of the source, then the transport.\<close>

definition trial :: "SPECTSimulator \<Rightarrow> real \<Rightarrow> real \<Rightarrow> rng_state
    \<Rightarrow> py_error + (outcome \<times> rng_state)" where
  "trial self detector_width detector_height g =
     (let (theta, g1) = uniform (- pi / 6) (pi / 6) g;
          (phi, g2) = uniform 0 (2 * pi) g1;
          (x0, g3) = uniform (- detector_width / 2) (detector_width / 2) g2;
          (y0, g4) = uniform (- detector_height / 2) (detector_height / 2) g3
      in transport self detector_width detector_height theta phi x0 y0 g4)"

text \<open>
  The loop \<^verbatim>\<open>for _ in range(num_photons)\<close> over the state it updates: the list of detected
  photons, the two counters and the generator. An exception leaves the loop.
\<close>

type_synonym loop_state = "photon list \<times> int \<times> int \<times> rng_state"

fun run_trials :: "SPECTSimulator \<Rightarrow> real \<Rightarrow> real \<Rightarrow> nat \<Rightarrow> loop_state
    \<Rightarrow> py_error + loop_state" where
  "run_trials self w h 0 st = Inr st"
| "run_trials self w h (Suc n) (ps, septal, geo, g) =
     (case trial self w h g of
        Inl e \<Rightarrow> Inl e
      | Inr (GeometricRejection, g') \<Rightarrow> run_trials self w h n (ps, septal, geo + 1, g')
      | Inr (SeptalAbsorption, g') \<Rightarrow> run_trials self w h n (ps, septal + 1, geo, g')
      | Inr (Detected ph, g') \<Rightarrow> run_trials self w h n (ps @ [ph], septal, geo, g'))"

text \<open>
  \<^verbatim>\<open>simulate_photon_transport\<close>. \<^verbatim>\<open>range(num_photons)\<close> is empty for a negative count,
  hence \<open>nat num_photons\<close> iterations. The generator's final state is returned with the
  result, since the source leaves it in the global generator.
\<close>

definition simulate_photon_transport :: "SPECTSimulator \<Rightarrow> int \<Rightarrow> real \<Rightarrow> rng_state
    \<Rightarrow> py_error + (sim_result \<times> rng_state)" where
  "simulate_photon_transport self num_photons source_distance g =
     (let p = params self;
          detector_width = of_int (num_holes_x p) * (hole_diameter p + septal_thickness p);
          detector_height = of_int (num_holes_y p) * (hole_diameter p + septal_thickness p)
      in case run_trials self detector_width detector_height (nat num_photons) ([], 0, 0, g) of
           Inl e \<Rightarrow> Inl e
         | Inr (ps, septal, geo, g') \<Rightarrow>
             Inr (\<lparr>detected_photons = ps,
                   total_photons = num_photons,
                   detected_count = int (length ps),
                   septal_penetration = septal,
                   geometric_rejection = geo\<rparr>, g'))"

subsection \<open>The metrics engine\<close>

text \<open>
  The numpy reductions the metrics use. \<^verbatim>\<open>np.mean\<close> is the arithmetic mean and \<^verbatim>\<open>np.std\<close>
  the population standard deviation (divisor \<open>n\<close>); on a two-dimensional array both work
  on all its entries. Both are only called on non-empty input here.
\<close>

definition np_mean :: "real list \<Rightarrow> real" where
  "np_mean vs = sum_list vs / real (length vs)"

definition np_std :: "real list \<Rightarrow> real" where
  "np_std vs = sqrt (np_mean (map (\<lambda>v. (v - np_mean vs)\<^sup>2) vs))"

text \<open>
  \<^verbatim>\<open>np.histogram2d(x, y, bins)\<close> with an integer number of bins and no range: along each
  axis the range is that of the data (widened by one half on both sides when the data
  has a single value), the \<open>bins + 1\<close> edges are evenly spaced, a value belongs to the bin
  whose left edge is the last edge not above it, and a value on the rightmost edge
  belongs to the last bin. Bin 0 and bin \<open>bins + 1\<close> collect the values outside the
  range and are dropped from the result.
\<close>

definition np_linspace :: "real \<Rightarrow> real \<Rightarrow> nat \<Rightarrow> real list" where
  "np_linspace start stop num =
     map (\<lambda>k. start + real k * ((stop - start) / real (num - 1))) [0..<num]"

definition bin_edges :: "real list \<Rightarrow> nat \<Rightarrow> real list" where
  "bin_edges vs bins =
     (let smin = Min (set vs); smax = Max (set vs)
      in if smin = smax then np_linspace (smin - 0.5) (smax + 0.5) (bins + 1)
         else np_linspace smin smax (bins + 1))"

definition searchsorted_right :: "real list \<Rightarrow> real \<Rightarrow> nat" where
  "searchsorted_right edges v = length (filter (\<lambda>e. e \<le> v) edges)"

definition bin_of :: "real list \<Rightarrow> real \<Rightarrow> nat" where
  "bin_of edges v =
     (let c = searchsorted_right edges v in if v = last edges then c - 1 else c)"

definition histogram2d :: "real list \<Rightarrow> real list \<Rightarrow> nat \<Rightarrow> real list list" where
  "histogram2d xs ys bins =
     (let ex = bin_edges xs bins;
          ey = bin_edges ys bins;
          cells = zip (map (bin_of ex) xs) (map (bin_of ey) ys)
      in map (\<lambda>i. map (\<lambda>j. real (count_list cells (Suc i, Suc j))) [0..<bins]) [0..<bins])"

definition calculate_fwhm :: "real list \<Rightarrow> real" where
  "calculate_fwhm positions =
     (if length positions < 10 then 0
      else (let std_dev = np_std positions in 2.355 * std_dev))"

definition calculate_uniformity :: "photon list \<Rightarrow> nat \<Rightarrow> real" where
  "calculate_uniformity photons grid_size =
     (if length photons < 10 then 0
      else
        (let xs = map photon_x photons;
             ys = map photon_y photons;
             hist = histogram2d xs ys grid_size;
             mean_counts = np_mean (concat hist);
             std_counts = np_std (concat hist)
         in if mean_counts > 0
            then (let uniformity = (1 - std_counts / mean_counts) * 100 in max 0 uniformity)
            else 0))"

text \<open>
  \<^verbatim>\<open>calculate_metrics\<close> returns a dictionary; its two return statements build
  dictionaries with different keys, so the result is an association list, read with
  \<^const>\<open>map_of\<close>. The divisions by \<^verbatim>\<open>total\<close> divide Python integers and raise on zero;
  the first of them is the one for the sensitivity.
\<close>

type_synonym metrics = "(string \<times> real) list"

definition calculate_metrics :: "sim_result \<Rightarrow> py_error + metrics" where
  "calculate_metrics simulation_results =
     (let photons = detected_photons simulation_results;
          total = total_photons simulation_results
      in if length photons = 0
         then Inr [(''sensitivity'', 0),
                   (''spatial_resolution_fwhm'', 0),
                   (''uniformity'', 0),
                   (''contrast_to_noise'', 0)]
         else if total = 0 then Inl ZeroDivisionError
         else
           (let sensitivity = real (length photons) / of_int total * 100;
                x_positions = map photon_x photons;
                spatial_resolution = calculate_fwhm x_positions;
                uniformity = calculate_uniformity photons 10;
                cnr = (if length photons > 0 then sqrt (real (length photons)) else 0)
            in Inr [(''sensitivity'', sensitivity),
                    (''spatial_resolution_fwhm'', spatial_resolution),
                    (''uniformity'', uniformity),
                    (''contrast_to_noise'', cnr),
                    (''septal_penetration_fraction'',
                       of_int (septal_penetration simulation_results) / of_int total * 100),
                    (''geometric_efficiency'',
                       of_int (total - geometric_rejection simulation_results)
                         / of_int total * 100)]))"

subsection \<open>Concrete inputs\<close>

text \<open>
  The configuration of \<^verbatim>\<open>main\<close>: a lead collimator with holes of 1.5 mm diameter and
  25 mm length, septa of 0.2 mm and the default array of 100 by 100 holes.
\<close>

definition main_params :: CollimatorParams where
  "main_params = \<lparr>hole_diameter = 1.5, hole_length = 25, septal_thickness = 0.2,
     material = ''lead'', num_holes_x = 100, num_holes_y = 100\<rparr>"

definition lead :: MaterialProperties where
  "lead = \<lparr>density = 11.34, attenuation_coefficient = 23.0, name = ''Lead''\<rparr>"

definition main_simulator :: SPECTSimulator where
  "main_simulator = \<lparr>params = main_params, sim_material = lead\<rparr>"

text \<open>
  A generator whose raw uniform variates are all one half and whose normal variates are
  all zero: every photon it produces enters at the centre of the detector, along the
  axis.
\<close>

definition centred_rng :: rng_state where
  "centred_rng = \<lparr>uniforms = sconst (1 / 2), normals = sconst 0\<rparr>"

definition axial_photon :: photon where
  "axial_photon = \<lparr>photon_x = 0, photon_y = 0, photon_energy = 140\<rparr>"

text \<open>
  A direction half a microradian off the axis, inside the band in which
  \<^verbatim>\<open>_calculate_septal_path\<close> returns zero, and a generator whose raw uniform variates
  are all \<open>0.9999999\<close>.
\<close>

definition grazing_theta :: real where
  "grazing_theta = 1 / 2000000"

definition near_one_rng :: rng_state where
  "near_one_rng = \<lparr>uniforms = sconst (9999999 / 10000000), normals = sconst 0\<rparr>"

definition grazing_photon :: photon where
  "grazing_photon = \<lparr>photon_x = 25 * tan grazing_theta, photon_y = 0, photon_energy = 140\<rparr>"

text \<open>
  Results handed to the metrics engine: the result of a run of zero photons; a run of
  four photons of which one is detected, one absorbed and two rejected; and a run of ten
  photons, all detected on the axis.
\<close>

definition empty_result :: sim_result where
  "empty_result = \<lparr>detected_photons = [], total_photons = 0, detected_count = 0,
     septal_penetration = 0, geometric_rejection = 0\<rparr>"

definition four_trial_result :: sim_result where
  "four_trial_result = \<lparr>detected_photons = [axial_photon], total_photons = 4,
     detected_count = 1, septal_penetration = 1, geometric_rejection = 2\<rparr>"

definition ten_photon_result :: sim_result where
  "ten_photon_result = \<lparr>detected_photons = replicate 10 axial_photon, total_photons = 10,
     detected_count = 10, septal_penetration = 0, geometric_rejection = 0\<rparr>"

text \<open>The dictionary of the first return statement of \<^verbatim>\<open>calculate_metrics\<close>.\<close>

definition no_counts_metrics :: metrics where
  "no_counts_metrics = [(''sensitivity'', 0), (''spatial_resolution_fwhm'', 0),
     (''uniformity'', 0), (''contrast_to_noise'', 0)]"

text \<open>
  A configuration with a hole diameter and a hole length of zero, and one with a
  material that is not in the database.
\<close>

definition degenerate_params :: CollimatorParams where
  "degenerate_params = \<lparr>hole_diameter = 0, hole_length = 0, septal_thickness = 0.2,
     material = ''lead'', num_holes_x = 100, num_holes_y = 100\<rparr>"

definition gold_params :: CollimatorParams where
  "gold_params = \<lparr>hole_diameter = 1.5, hole_length = 25, septal_thickness = 0.2,
     material = ''gold'', num_holes_x = 100, num_holes_y = 100\<rparr>"

section \<open>Properties of the transport kernel\<close>

subsection \<open>Every trial returns\<close>

text \<open>
  A direction that passes the acceptance test lies strictly between \<open>-\<pi>/2\<close> and \<open>\<pi>/2\<close>,
  whatever the geometry, because the acceptance angle is an arc tangent.
\<close>

lemma accepted_cos_pos: "\<bar>theta\<bar> \<le> arctan r \<Longrightarrow> 0 < cos theta"
proof -
  assume a: "\<bar>theta\<bar> \<le> arctan r"
  have "arctan r < pi / 2" by (rule arctan_ubound)
  with a have "- (pi / 2) < theta" "theta < pi / 2" by linarith+
  then show ?thesis by (rule cos_gt_zero_pi)
qed

lemma transport_total:
  assumes "hole_diameter (params self) + septal_thickness (params self) \<noteq> 0"
      and "hole_length (params self) \<noteq> 0"
  shows "\<exists>out g'. transport self w h theta phi x0 y0 g = Inr (out, g')"
proof (cases "\<bar>theta\<bar> > arctan (hole_diameter (params self) / (2 * hole_length (params self)))")
  case True
  with assms show ?thesis by (simp add: transport_def truediv_def Let_def)
next
  case False
  then have "\<bar>theta\<bar> \<le> arctan (hole_diameter (params self) / (2 * hole_length (params self)))"
    by simp
  then have "0 < cos theta" by (rule accepted_cos_pos)
  with False assms show ?thesis
    by (simp add: transport_def truediv_def np_divide_def Let_def split_beta)
qed

lemma trial_total:
  assumes "hole_diameter (params self) + septal_thickness (params self) \<noteq> 0"
      and "hole_length (params self) \<noteq> 0"
  shows "\<exists>out g'. trial self w h g = Inr (out, g')"
  using transport_total [OF assms] by (simp add: trial_def Let_def split_beta)

lemma run_trials_total:
  assumes "hole_diameter (params self) + septal_thickness (params self) \<noteq> 0"
      and "hole_length (params self) \<noteq> 0"
  shows "\<exists>st'. run_trials self w h n st = Inr st'"
proof (induction n arbitrary: st)
  case 0
  show ?case by (cases st) auto
next
  case (Suc n)
  obtain ps sp ge g where st: "st = (ps, sp, ge, g)" using prod_cases4 by blast
  obtain out g' where t: "trial self w h g = Inr (out, g')"
    using trial_total [OF assms] by blast
  show ?case using Suc.IH t by (cases out) (simp_all add: st)
qed

subsection \<open>The counters\<close>

text \<open>Each iteration adds one to exactly one of the three tallies.\<close>

lemma run_trials_counts:
  "run_trials self w h n (ps, sp, ge, g) = Inr (ps', sp', ge', g')
   \<Longrightarrow> int (length ps') + sp' + ge' = int (length ps) + sp + ge + int n"
proof (induction n arbitrary: ps sp ge g)
  case 0
  then show ?case by simp
next
  case (Suc n)
  show ?case
  proof (cases "trial self w h g")
    case (Inl e)
    with Suc.prems show ?thesis by simp
  next
    case (Inr r)
    obtain out g1 where r: "r = (out, g1)" by (cases r)
    show ?thesis
    proof (cases out)
      case GeometricRejection
      with Suc.prems Inr r
      have "run_trials self w h n (ps, sp, ge + 1, g1) = Inr (ps', sp', ge', g')"
        by simp
      from Suc.IH [OF this] show ?thesis by simp
    next
      case SeptalAbsorption
      with Suc.prems Inr r
      have "run_trials self w h n (ps, sp + 1, ge, g1) = Inr (ps', sp', ge', g')"
        by simp
      from Suc.IH [OF this] show ?thesis by simp
    next
      case (Detected ph)
      with Suc.prems Inr r
      have "run_trials self w h n (ps @ [ph], sp, ge, g1) = Inr (ps', sp', ge', g')"
        by simp
      from Suc.IH [OF this] show ?thesis by simp
    qed
  qed
qed

text \<open>The generator of the concrete inputs yields the axial photon and is left as it was.\<close>

lemma centred_trial:
  "trial main_simulator w h centred_rng = Inr (Detected axial_photon, centred_rng)"
  by (simp add: trial_def transport_def uniform_def random_def normal_def truediv_def
      np_divide_def calculate_septal_path_def main_simulator_def main_params_def lead_def
      centred_rng_def axial_photon_def Let_def)

text \<open>
  Claim C1. For a geometry whose hole pitch and hole length are not zero (every valid
  geometry is one) and a photon count \<open>N \<ge> 0\<close>, \<open>simulate_photon_transport\<close> returns a
  result, its \<open>total_photons\<close> is \<open>N\<close>, its \<open>detected_count\<close> is the number of detected
  photons, and the detected, septally absorbed and geometrically rejected photons add up
  to \<open>total_photons\<close>: every trial ends in exactly one of the three outcomes.
\<close>

theorem simulate_accounts_for_every_trial:
  assumes "hole_diameter (params self) + septal_thickness (params self) \<noteq> 0"
      and "hole_length (params self) \<noteq> 0"
      and "0 \<le> N"
  shows "\<exists>r g'. simulate_photon_transport self N source_distance g = Inr (r, g')
           \<and> total_photons r = N
           \<and> detected_count r = int (length (detected_photons r))
           \<and> detected_count r + septal_penetration r + geometric_rejection r = total_photons r"
proof -
  let ?p = "params self"
  let ?w = "of_int (num_holes_x ?p) * (hole_diameter ?p + septal_thickness ?p)"
  let ?h = "of_int (num_holes_y ?p) * (hole_diameter ?p + septal_thickness ?p)"
  obtain st' where run: "run_trials self ?w ?h (nat N) ([], 0, 0, g) = Inr st'"
    using run_trials_total [OF assms(1,2)] by blast
  obtain ps sp ge g' where st': "st' = (ps, sp, ge, g')" using prod_cases4 by blast
  from run_trials_counts [OF run [unfolded st']] assms(3)
  have "int (length ps) + sp + ge = N" by simp
  with run st' show ?thesis
    by (simp add: simulate_photon_transport_def Let_def)
qed

theorem simulate_accounts_for_every_trial_witness:
  "hole_diameter (params main_simulator) + septal_thickness (params main_simulator) \<noteq> 0
   \<and> hole_length (params main_simulator) \<noteq> 0 \<and> (0::int) \<le> 2
   \<and> (\<exists>r g'. simulate_photon_transport main_simulator 2 100 centred_rng = Inr (r, g')
           \<and> total_photons r = 2
           \<and> detected_count r = int (length (detected_photons r))
           \<and> detected_count r + septal_penetration r + geometric_rejection r = total_photons r)"
proof -
  have h1: "hole_diameter (params main_simulator) + septal_thickness (params main_simulator) \<noteq> 0"
    by (simp add: main_simulator_def main_params_def)
  have h2: "hole_length (params main_simulator) \<noteq> 0"
    by (simp add: main_simulator_def main_params_def)
  have h3: "(0::int) \<le> 2" by simp
  from simulate_accounts_for_every_trial [OF h1 h2 h3, of 100 centred_rng] h1 h2 h3
  show ?thesis by blast
qed

text \<open>
  Claim C8. The source distance is a dead parameter: two runs that differ only in their
  source distance return the same result (or the same exception) and leave the
  generator in the same state.
\<close>

theorem source_distance_is_dead:
  "simulate_photon_transport self N d1 g = simulate_photon_transport self N d2 g"
  by (simp add: simulate_photon_transport_def)

subsection \<open>What one trial does\<close>

text \<open>
  Within the acceptance angle the tangent of the direction is bounded by the ratio of
  hole radius to hole length.
\<close>

lemma accepted_abs_tan_le:
  assumes "\<bar>theta\<bar> \<le> arctan r"
  shows "\<bar>tan theta\<bar> \<le> r"
proof -
  have ub: "arctan r < pi / 2" by (rule arctan_ubound)
  from assms ub have lo: "- (pi / 2) < theta" and lo': "- (pi / 2) < - theta" by linarith+
  from assms have le: "theta \<le> arctan r" and le': "- theta \<le> arctan r" by linarith+
  have "tan theta \<le> tan (arctan r)" by (rule tan_mono_le [OF lo le ub])
  moreover have "tan (- theta) \<le> tan (arctan r)" by (rule tan_mono_le [OF lo' le' ub])
  ultimately show ?thesis by (simp add: tan_arctan abs_le_iff)
qed

text \<open>
  With a non-zero hole pitch and a non-zero hole length no division raises, and the
  transport is a three-way decision.
\<close>

lemma transport_outcome_aux:
  assumes "hole_diameter (params self) + septal_thickness (params self) \<noteq> 0"
      and "hole_length (params self) \<noteq> 0"
  shows "transport self w h theta phi x0 y0 g =
     Inr (if \<bar>theta\<bar> > arctan (hole_diameter (params self) / (2 * hole_length (params self)))
          then (GeometricRejection, g)
          else if shd (uniforms g)
                    > exp (- attenuation_coefficient (sim_material self)
                             * (if \<bar>theta\<bar> < 1 / 10 ^ 6 then 0
                                else septal_thickness (params self) * \<bar>tan theta\<bar>) / 10)
          then (SeptalAbsorption, g\<lparr>uniforms := stl (uniforms g)\<rparr>)
          else (Detected
                  \<lparr>photon_x = x0 + sin theta * cos phi * hole_length (params self) / cos theta,
                   photon_y = y0 + sin theta * sin phi * hole_length (params self) / cos theta,
                   photon_energy = 140 + 140 * 0.1 / 2.355 * shd (normals g)\<rparr>,
                g\<lparr>uniforms := stl (uniforms g), normals := stl (normals g)\<rparr>))"
proof (cases "\<bar>theta\<bar> > arctan (hole_diameter (params self) / (2 * hole_length (params self)))")
  case True
  with assms show ?thesis by (simp add: transport_def truediv_def Let_def)
next
  case False
  then have "\<bar>theta\<bar> \<le> arctan (hole_diameter (params self) / (2 * hole_length (params self)))"
    by simp
  then have "0 < cos theta" by (rule accepted_cos_pos)
  with False assms show ?thesis
    by (simp add: transport_def truediv_def np_divide_def Let_def random_def normal_def
        calculate_septal_path_def)
qed

lemma transport_never_nonfinite:
  "transport self w h theta phi x0 y0 g \<noteq> Inl NonFiniteValue"
proof (cases "\<bar>theta\<bar> > arctan (hole_diameter (params self) / (2 * hole_length (params self)))")
  case True
  then show ?thesis by (simp add: transport_def truediv_def Let_def)
next
  case False
  then have "\<bar>theta\<bar> \<le> arctan (hole_diameter (params self) / (2 * hole_length (params self)))"
    by simp
  then have "0 < cos theta" by (rule accepted_cos_pos)
  with False show ?thesis
    by (simp add: transport_def truediv_def np_divide_def Let_def split_beta)
qed

lemma transport_detected_cos_pos:
  assumes "transport self w h theta phi x0 y0 g = Inr (Detected ph, g')"
  shows "\<bar>theta\<bar> \<le> arctan (hole_diameter (params self) / (2 * hole_length (params self)))"
  using assms
  by (auto simp add: transport_def truediv_def Let_def split_beta split: if_splits sum.splits)

lemma transport_Inr_geometry:
  assumes "transport self w h theta phi x0 y0 g = Inr r"
  shows "hole_diameter (params self) + septal_thickness (params self) \<noteq> 0
       \<and> hole_length (params self) \<noteq> 0"
proof (rule ccontr)
  assume "\<not> ?thesis"
  then have "hole_diameter (params self) + septal_thickness (params self) = 0
       \<or> hole_length (params self) = 0" by blast
  then have "transport self w h theta phi x0 y0 g = Inl ZeroDivisionError"
    by (auto simp add: transport_def truediv_def Let_def)
  with assms show False by simp
qed

lemma transport_detected_photon:
  assumes "transport self w h theta phi x0 y0 g = Inr (Detected ph, g')"
  shows "ph = \<lparr>photon_x = x0 + sin theta * cos phi * hole_length (params self) / cos theta,
                   photon_y = y0 + sin theta * sin phi * hole_length (params self) / cos theta,
                   photon_energy = 140 + 140 * 0.1 / 2.355 * shd (normals g)\<rparr>"
proof -
  from transport_Inr_geometry [OF assms]
  have g1: "hole_diameter (params self) + septal_thickness (params self) \<noteq> 0"
   and g2: "hole_length (params self) \<noteq> 0" by blast+
  from assms show ?thesis
    unfolding transport_outcome_aux [OF g1 g2] by (simp split: if_splits)
qed

lemma transport_uniforms:
  assumes "transport self w h theta phi x0 y0 g = Inr (out, g')"
  shows "uniforms g' = uniforms g \<or> uniforms g' = stl (uniforms g)"
proof -
  from transport_Inr_geometry [OF assms]
  have g1: "hole_diameter (params self) + septal_thickness (params self) \<noteq> 0"
   and g2: "hole_length (params self) \<noteq> 0" by blast+
  from assms show ?thesis
    unfolding transport_outcome_aux [OF g1 g2] by (auto split: if_splits)
qed

lemma trial_unfold:
  "trial self w h g =
     transport self w h
       (- pi / 6 + (pi / 6 - - pi / 6) * shd (uniforms g))
       (0 + (2 * pi - 0) * shd (stl (uniforms g)))
       (- w / 2 + (w / 2 - - w / 2) * shd (stl (stl (uniforms g))))
       (- h / 2 + (h / 2 - - h / 2) * shd (stl (stl (stl (uniforms g)))))
       (g\<lparr>uniforms := stl (stl (stl (stl (uniforms g))))\<rparr>)"
  unfolding trial_def uniform_def Let_def by simp

lemma centred_transport:
  "transport main_simulator 170 170 0 pi 0 0 centred_rng = Inr (Detected axial_photon, centred_rng)"
  by (simp add: transport_def random_def normal_def truediv_def
      np_divide_def calculate_septal_path_def main_simulator_def main_params_def lead_def
      centred_rng_def axial_photon_def Let_def)

lemma centred_simulate:
  "simulate_photon_transport main_simulator 2 100 centred_rng =
     Inr (\<lparr>detected_photons = [axial_photon, axial_photon], total_photons = 2,
           detected_count = 2, septal_penetration = 0, geometric_rejection = 0\<rparr>, centred_rng)"
  by (simp add: simulate_photon_transport_def centred_trial numeral_2_eq_2)

subsection \<open>Bounds on the tangent near the axis\<close>

lemma arctan_le_self:
  assumes "0 \<le> (x::real)"
  shows "arctan x \<le> x"
proof -
  have "(\<lambda>t. t - arctan t) 0 \<le> (\<lambda>t. t - arctan t) x"
  proof (rule DERIV_nonneg_imp_nondecreasing [OF assms])
    fix t :: real
    assume "0 \<le> t" "t \<le> x"
    have d: "((\<lambda>t. t - arctan t) has_real_derivative (1 - inverse (1 + t\<^sup>2))) (at t)"
      by (auto intro!: derivative_eq_intros)
    have "0 < 1 + t\<^sup>2" by (simp add: add_pos_nonneg)
    moreover have "1 \<le> 1 + t\<^sup>2" by simp
    ultimately have "inverse (1 + t\<^sup>2) \<le> 1" by (simp add: inverse_le_1_iff)
    then have "0 \<le> 1 - inverse (1 + t\<^sup>2)" by simp
    with d show "\<exists>y. ((\<lambda>t. t - arctan t) has_real_derivative y) (at t) \<and> 0 \<le> y" by blast
  qed
  then show ?thesis by simp
qed

lemma self_le_tan:
  assumes "0 \<le> (x::real)" "x < pi / 2"
  shows "x \<le> tan x"
proof -
  have a: "arctan x \<le> x" using assms(1) by (rule arctan_le_self)
  have "- (pi / 2) < arctan x" by (rule arctan_lbound)
  from tan_mono_le [OF this a assms(2)] show ?thesis by (simp add: tan_arctan)
qed

lemma tan_le_double:
  assumes "0 \<le> (x::real)" "x \<le> 1 / 2"
  shows "tan x \<le> 2 * x"
proof -
  have p: "2 \<le> pi" by (rule pi_ge_two)
  have "cos (pi / 3) \<le> cos x"
    using assms p by (intro cos_monotone_0_pi_le) simp_all
  then have c: "1 / 2 \<le> cos x" by (simp add: cos_60)
  have s0: "0 \<le> sin x" using assms p by (intro sin_ge_zero) simp_all
  have s1: "sin x \<le> x" using assms(1) by (rule sin_x_le_x)
  have "sin x / cos x \<le> x / (1 / 2)"
    using s0 s1 c by (intro frac_le) simp_all
  then show ?thesis by (simp add: tan_def)
qed

lemma grazing_accepted:
  "\<bar>grazing_theta\<bar> \<le> arctan (hole_diameter main_params / (2 * hole_length main_params))"
proof -
  have p: "2 \<le> pi" by (rule pi_ge_two)
  have g: "0 \<le> grazing_theta" "grazing_theta \<le> 1 / 2" by (simp_all add: grazing_theta_def)
  have "tan grazing_theta \<le> 2 * grazing_theta" using g by (rule tan_le_double)
  also have "\<dots> \<le> 3 / 100" by (simp add: grazing_theta_def)
  finally have "arctan (tan grazing_theta) \<le> arctan (3 / 100)" by (rule arctan_monotone')
  moreover have "arctan (tan grazing_theta) = grazing_theta"
    using g p by (intro arctan_tan) simp_all
  ultimately show ?thesis using g by (simp add: main_params_def)
qed

lemma grazing_claimed_absorbed:
  "shd (uniforms near_one_rng)
     > exp (- attenuation_coefficient lead
              * (septal_thickness main_params * \<bar>tan grazing_theta\<bar>) / 10)"
proof -
  have p: "2 \<le> pi" by (rule pi_ge_two)
  have g: "0 \<le> grazing_theta" by (simp add: grazing_theta_def)
  have g2: "grazing_theta < pi / 2" using p by (simp add: grazing_theta_def)
  have t: "grazing_theta \<le> tan grazing_theta" using g g2 by (rule self_le_tan)
  then have t0: "0 \<le> tan grazing_theta" using g by linarith
  let ?x = "23 * (2 / 10 * grazing_theta) / 10"
  have "- attenuation_coefficient lead * (septal_thickness main_params * \<bar>tan grazing_theta\<bar>) / 10
        \<le> - ?x"
    using t t0 by (simp add: lead_def main_params_def)
  then have "exp (- attenuation_coefficient lead
              * (septal_thickness main_params * \<bar>tan grazing_theta\<bar>) / 10) \<le> exp (- ?x)"
    by (simp only: exp_le_cancel_iff)
  also have "exp (- ?x) = inverse (exp ?x)" by (rule exp_minus)
  also have "\<dots> \<le> inverse (1 + ?x)"
  proof (rule le_imp_inverse_le)
    show "1 + ?x \<le> exp ?x" by (rule exp_ge_add_one_self)
    show "0 < 1 + ?x" by (simp add: grazing_theta_def)
  qed
  also have "\<dots> < 9999999 / 10000000" by (simp add: grazing_theta_def)
  finally show ?thesis by (simp add: near_one_rng_def)
qed

lemma grazing_detected:
  "transport main_simulator 170 170 grazing_theta 0 0 0 near_one_rng =
     Inr (Detected \<lparr>photon_x = 25 * tan grazing_theta, photon_y = 0, photon_energy = 140\<rparr>,
          near_one_rng)"
proof -
  have g1: "hole_diameter (params main_simulator) + septal_thickness (params main_simulator) \<noteq> 0"
    by (simp add: main_simulator_def main_params_def)
  have g2: "hole_length (params main_simulator) \<noteq> 0"
    by (simp add: main_simulator_def main_params_def)
  have acc: "\<not> \<bar>grazing_theta\<bar> > arctan (hole_diameter (params main_simulator) / (2 * hole_length (params main_simulator)))"
    using grazing_accepted by (simp add: main_simulator_def)
  have small: "\<bar>grazing_theta\<bar> < 1 / 10 ^ 6" by (simp add: grazing_theta_def)
  have u: "\<not> shd (uniforms near_one_rng) > 1" by (simp add: near_one_rng_def)
  show ?thesis
    unfolding transport_outcome_aux [OF g1 g2]
    using acc small u
    by (simp add: tan_def)
      (simp add: near_one_rng_def main_simulator_def main_params_def)
qed

text \<open>
  Claim C2, as the code has it. For a geometry whose hole pitch and hole length are not
  zero, a photon is geometrically rejected if and only if \<open>\<bar>theta\<bar>\<close> exceeds
  \<open>arctan (hole_diameter / (2 * hole_length))\<close>; an accepted photon is septally absorbed if
  and only if the uniform draw exceeds \<open>exp (- attenuation_coefficient * s / 10)\<close>, where
  the septal path \<open>s\<close> is zero when \<open>\<bar>theta\<bar> < 1e-6\<close> and \<open>septal_thickness * \<bar>tan theta\<bar>\<close>
  otherwise; every other photon is detected at
  \<open>(x0 + dx * hole_length / dz, y0 + dy * hole_length / dz)\<close>.
\<close>

theorem trial_outcome_rule:
  assumes "hole_diameter (params self) + septal_thickness (params self) \<noteq> 0"
      and "hole_length (params self) \<noteq> 0"
  shows "\<exists>out g'. transport self w h theta phi x0 y0 g = Inr (out, g')
     \<and> (out = GeometricRejection
          \<longleftrightarrow> \<bar>theta\<bar> > arctan (hole_diameter (params self) / (2 * hole_length (params self))))
     \<and> (out = SeptalAbsorption
          \<longleftrightarrow> \<bar>theta\<bar> \<le> arctan (hole_diameter (params self) / (2 * hole_length (params self)))
              \<and> shd (uniforms g)
                  > exp (- attenuation_coefficient (sim_material self)
                           * (if \<bar>theta\<bar> < 1 / 10 ^ 6 then 0
                              else septal_thickness (params self) * \<bar>tan theta\<bar>) / 10))
     \<and> (out \<noteq> GeometricRejection \<and> out \<noteq> SeptalAbsorption
          \<longrightarrow> (\<exists>energy. out = Detected
                \<lparr>photon_x = x0 + sin theta * cos phi * hole_length (params self) / cos theta,
                 photon_y = y0 + sin theta * sin phi * hole_length (params self) / cos theta,
                 photon_energy = energy\<rparr>))"
  unfolding transport_outcome_aux [OF assms] by auto

theorem trial_outcome_rule_witness:
  "hole_diameter (params main_simulator) + septal_thickness (params main_simulator) \<noteq> 0
   \<and> hole_length (params main_simulator) \<noteq> 0
   \<and> transport main_simulator 170 170 0 pi 0 0 centred_rng = Inr (Detected axial_photon, centred_rng)
   \<and> \<bar>0::real\<bar> \<le> arctan (hole_diameter (params main_simulator) / (2 * hole_length (params main_simulator)))"
proof -
  have h1: "hole_diameter (params main_simulator) + septal_thickness (params main_simulator) \<noteq> 0"
    by (simp add: main_simulator_def main_params_def)
  have h2: "hole_length (params main_simulator) \<noteq> 0"
    by (simp add: main_simulator_def main_params_def)
  have d: "transport main_simulator 170 170 0 pi 0 0 centred_rng = Inr (Detected axial_photon, centred_rng)"
    by (rule centred_transport)
  from trial_outcome_rule [OF h1 h2, of 170 170 0 pi 0 0 centred_rng] d
  have "\<not> \<bar>0::real\<bar> > arctan (hole_diameter (params main_simulator) / (2 * hole_length (params main_simulator)))"
    by auto
  with h1 h2 d show ?thesis by simp
qed

text \<open>
  Claim C2 as stated, without the band around the axis, fails: the direction
  \<open>grazing_theta\<close> is accepted, the draw \<open>0.9999999\<close> of \<open>[0, 1)\<close> exceeds
  \<open>exp (- attenuation_coefficient * (septal_thickness * \<bar>tan theta\<bar>) / 10)\<close>, and the photon
  is detected, not absorbed.
\<close>

theorem septal_test_ignores_grazing_path:
  "\<bar>grazing_theta\<bar> \<le> arctan (hole_diameter main_params / (2 * hole_length main_params))
   \<and> 0 \<le> shd (uniforms near_one_rng) \<and> shd (uniforms near_one_rng) < 1
   \<and> shd (uniforms near_one_rng)
       > exp (- attenuation_coefficient lead
                * (septal_thickness main_params * \<bar>tan grazing_theta\<bar>) / 10)
   \<and> transport main_simulator 170 170 grazing_theta 0 0 0 near_one_rng
       = Inr (Detected grazing_photon, near_one_rng)"
  using grazing_accepted grazing_claimed_absorbed grazing_detected
  by (simp add: grazing_photon_def) (simp add: near_one_rng_def)

subsection \<open>No division by a non-positive axial cosine\<close>

lemma trial_never_nonfinite: "trial self w h g \<noteq> Inl NonFiniteValue"
  by (simp add: trial_def Let_def split_beta transport_never_nonfinite)

lemma run_trials_never_nonfinite: "run_trials self w h n st \<noteq> Inl NonFiniteValue"
proof (induction n arbitrary: st)
  case 0
  show ?case by (cases st) auto
next
  case (Suc n)
  obtain ps sp ge g where st: "st = (ps, sp, ge, g)" using prod_cases4 by blast
  show ?case
  proof (cases "trial self w h g")
    case (Inl e)
    with trial_never_nonfinite [of self w h g] show ?thesis by (simp add: st)
  next
    case (Inr r)
    obtain out g1 where r: "r = (out, g1)" by (cases r)
    show ?thesis using Suc.IH Inr r by (cases out) (simp_all add: st)
  qed
qed

text \<open>
  Claim C9. No trial divides by a zero axial direction cosine, so no detector position is
  infinite or undefined: a detected photon has \<open>dz > 0\<close>, a photon with \<open>dz \<le> 0\<close> is
  geometrically rejected (in a geometry whose divisions do not raise), and neither one
  transport nor a whole simulation ends in a non-finite value.
\<close>

theorem detection_needs_positive_dz:
  "transport self w h theta phi x0 y0 g \<noteq> Inl NonFiniteValue
   \<and> (\<forall>ph g'. transport self w h theta phi x0 y0 g = Inr (Detected ph, g') \<longrightarrow> 0 < cos theta)
   \<and> (cos theta \<le> 0 \<and> hole_diameter (params self) + septal_thickness (params self) \<noteq> 0
        \<and> hole_length (params self) \<noteq> 0
      \<longrightarrow> transport self w h theta phi x0 y0 g = Inr (GeometricRejection, g))
   \<and> simulate_photon_transport self N source_distance g \<noteq> Inl NonFiniteValue"
proof (intro conjI allI impI)
  show "transport self w h theta phi x0 y0 g \<noteq> Inl NonFiniteValue"
    by (rule transport_never_nonfinite)
next
  fix ph g'
  assume "transport self w h theta phi x0 y0 g = Inr (Detected ph, g')"
  then have "\<bar>theta\<bar> \<le> arctan (hole_diameter (params self) / (2 * hole_length (params self)))"
    by (rule transport_detected_cos_pos)
  then show "0 < cos theta" by (rule accepted_cos_pos)
next
  assume a: "cos theta \<le> 0 \<and> hole_diameter (params self) + septal_thickness (params self) \<noteq> 0
        \<and> hole_length (params self) \<noteq> 0"
  have "\<not> \<bar>theta\<bar> \<le> arctan (hole_diameter (params self) / (2 * hole_length (params self)))"
    using accepted_cos_pos [of theta] a by fastforce
  with a show "transport self w h theta phi x0 y0 g = Inr (GeometricRejection, g)"
    by (simp add: transport_outcome_aux)
next
  show "simulate_photon_transport self N source_distance g \<noteq> Inl NonFiniteValue"
    using run_trials_never_nonfinite
    by (auto simp add: simulate_photon_transport_def Let_def split: sum.splits)
qed

theorem detection_needs_positive_dz_witness:
  "cos pi \<le> 0
   \<and> hole_diameter (params main_simulator) + septal_thickness (params main_simulator) \<noteq> 0
   \<and> hole_length (params main_simulator) \<noteq> 0
   \<and> transport main_simulator 170 170 pi 0 0 0 centred_rng = Inr (GeometricRejection, centred_rng)
   \<and> transport main_simulator 170 170 0 pi 0 0 centred_rng = Inr (Detected axial_photon, centred_rng)
   \<and> 0 < cos (0::real)"
proof -
  have h1: "hole_diameter (params main_simulator) + septal_thickness (params main_simulator) \<noteq> 0"
    by (simp add: main_simulator_def main_params_def)
  have h2: "hole_length (params main_simulator) \<noteq> 0"
    by (simp add: main_simulator_def main_params_def)
  have h3: "cos pi \<le> 0" by simp
  from detection_needs_positive_dz [of main_simulator 170 170 pi 0 0 0 centred_rng] h1 h2 h3
  have r: "transport main_simulator 170 170 pi 0 0 0 centred_rng = Inr (GeometricRejection, centred_rng)"
    by blast
  have d: "transport main_simulator 170 170 0 pi 0 0 centred_rng = Inr (Detected axial_photon, centred_rng)"
    by (rule centred_transport)
  from detection_needs_positive_dz [of main_simulator 170 170 0 pi 0 0 centred_rng] d
  have "0 < cos (0::real)" by blast
  with h1 h2 h3 r d show ?thesis by blast
qed

subsection \<open>Detected positions stay near the entry position\<close>

lemma detected_offsets:
  assumes L: "0 < hole_length (params self)"
      and det: "transport self w h theta phi x0 y0 g = Inr (Detected ph, g')"
  shows "\<bar>photon_x ph - x0\<bar> \<le> hole_diameter (params self) / 2
       \<and> \<bar>photon_y ph - y0\<bar> \<le> hole_diameter (params self) / 2"
proof -
  let ?L = "hole_length (params self)"
  let ?d = "hole_diameter (params self)"
  have acc: "\<bar>theta\<bar> \<le> arctan (?d / (2 * ?L))"
    using det by (rule transport_detected_cos_pos)
  then have c: "0 < cos theta" by (rule accepted_cos_pos)
  from acc have t: "\<bar>tan theta\<bar> \<le> ?d / (2 * ?L)" by (rule accepted_abs_tan_le)
  have tL: "\<bar>tan theta\<bar> * ?L \<le> ?d / 2"
  proof -
    from t L have "\<bar>tan theta\<bar> * ?L \<le> ?d / (2 * ?L) * ?L"
      by (intro mult_right_mono) simp_all
    also from L have "?d / (2 * ?L) * ?L = ?d / 2" by simp
    finally show ?thesis .
  qed
  have px: "photon_x ph - x0 = tan theta * ?L * cos phi"
   and py: "photon_y ph - y0 = tan theta * ?L * sin phi"
    using c by (simp_all add: transport_detected_photon [OF det] tan_def)
  have nonneg: "0 \<le> \<bar>tan theta\<bar> * ?L" using L by simp
  have "\<bar>photon_x ph - x0\<bar> = (\<bar>tan theta\<bar> * ?L) * \<bar>cos phi\<bar>"
    using L by (simp add: px abs_mult)
  also have "\<dots> \<le> (\<bar>tan theta\<bar> * ?L) * 1"
    by (intro mult_left_mono nonneg) simp
  finally have x: "\<bar>photon_x ph - x0\<bar> \<le> ?d / 2" using tL by simp
  have "\<bar>photon_y ph - y0\<bar> = (\<bar>tan theta\<bar> * ?L) * \<bar>sin phi\<bar>"
    using L by (simp add: py abs_mult)
  also have "\<dots> \<le> (\<bar>tan theta\<bar> * ?L) * 1"
    by (intro mult_left_mono nonneg) simp
  finally have y: "\<bar>photon_y ph - y0\<bar> \<le> ?d / 2" using tL by simp
  from x y show ?thesis ..
qed

lemma uniform_in_range:
  assumes "0 \<le> (w::real)" "0 \<le> u" "u < 1"
  shows "\<bar>- w / 2 + (w / 2 - - w / 2) * u\<bar> \<le> w / 2"
proof -
  have e: "- w / 2 + (w / 2 - - w / 2) * u = w * u - w / 2" by (simp add: algebra_simps)
  have "0 \<le> w * u" using assms by simp
  moreover have "w * u \<le> w * 1" using assms by (intro mult_left_mono) simp_all
  ultimately show ?thesis unfolding e by linarith
qed

lemma trial_detected_in_face:
  assumes L: "0 < hole_length (params self)"
      and w: "0 \<le> w" and h: "0 \<le> h"
      and u: "\<forall>u\<in>sset (uniforms g). 0 \<le> u \<and> u < 1"
      and det: "trial self w h g = Inr (Detected ph, g')"
  shows "\<bar>photon_x ph\<bar> \<le> w / 2 + hole_diameter (params self) / 2
       \<and> \<bar>photon_y ph\<bar> \<le> h / 2 + hole_diameter (params self) / 2"
proof -
  let ?s = "uniforms g"
  let ?u3 = "shd (stl (stl ?s))"
  let ?u4 = "shd (stl (stl (stl ?s)))"
  let ?x0 = "- w / 2 + (w / 2 - - w / 2) * ?u3"
  let ?y0 = "- h / 2 + (h / 2 - - h / 2) * ?u4"
  have "?u3 \<in> sset ?s" by (rule stl_sset, rule stl_sset, rule shd_sset)
  with u have u3: "0 \<le> ?u3" "?u3 < 1" by auto
  have "?u4 \<in> sset ?s" by (rule stl_sset, rule stl_sset, rule stl_sset, rule shd_sset)
  with u have u4: "0 \<le> ?u4" "?u4 < 1" by auto
  from det obtain theta phi g4 where
    tr: "transport self w h theta phi ?x0 ?y0 g4 = Inr (Detected ph, g')"
    unfolding trial_unfold by blast
  from detected_offsets [OF L tr]
  have ox: "\<bar>photon_x ph - ?x0\<bar> \<le> hole_diameter (params self) / 2"
   and oy: "\<bar>photon_y ph - ?y0\<bar> \<le> hole_diameter (params self) / 2" by blast+
  from uniform_in_range [OF w u3] have bnd_x: "\<bar>?x0\<bar> \<le> w / 2" .
  from uniform_in_range [OF h u4] have bnd_y: "\<bar>?y0\<bar> \<le> h / 2" .
  from ox bnd_x oy bnd_y show ?thesis by linarith
qed

lemma trial_uniforms_subset:
  assumes "trial self w h g = Inr (out, g')"
  shows "sset (uniforms g') \<subseteq> sset (uniforms g)"
proof -
  have s: "\<And>s::real stream. sset (stl s) \<subseteq> sset s" by (auto dest: stl_sset)
  let ?s = "uniforms g"
  have s4: "sset (stl (stl (stl (stl ?s)))) \<subseteq> sset ?s"
    using s [of ?s] s [of "stl ?s"] s [of "stl (stl ?s)"] s [of "stl (stl (stl ?s))"] by blast
  have s5: "sset (stl (stl (stl (stl (stl ?s))))) \<subseteq> sset ?s"
    using s4 s [of "stl (stl (stl (stl ?s)))"] by blast
  define g4 where "g4 = g\<lparr>uniforms := stl (stl (stl (stl ?s)))\<rparr>"
  have g4: "uniforms g4 = stl (stl (stl (stl ?s)))" by (simp add: g4_def)
  from assms obtain theta phi x0 y0 where
    tr: "transport self w h theta phi x0 y0 g4 = Inr (out, g')"
    unfolding trial_unfold g4_def by blast
  from transport_uniforms [OF tr] g4
  have "uniforms g' = stl (stl (stl (stl ?s))) \<or> uniforms g' = stl (stl (stl (stl (stl ?s))))"
    by auto
  with s4 s5 show ?thesis by auto
qed

lemma run_trials_in_face:
  assumes L: "0 < hole_length (params self)"
      and w: "0 \<le> w" and h: "0 \<le> h"
  shows "\<forall>u\<in>sset (uniforms g). 0 \<le> u \<and> u < 1
    \<Longrightarrow> \<forall>q\<in>set ps. \<bar>photon_x q\<bar> \<le> w / 2 + hole_diameter (params self) / 2
                   \<and> \<bar>photon_y q\<bar> \<le> h / 2 + hole_diameter (params self) / 2
    \<Longrightarrow> run_trials self w h n (ps, sp, ge, g) = Inr (ps', sp', ge', g')
    \<Longrightarrow> \<forall>q\<in>set ps'. \<bar>photon_x q\<bar> \<le> w / 2 + hole_diameter (params self) / 2
                   \<and> \<bar>photon_y q\<bar> \<le> h / 2 + hole_diameter (params self) / 2"
proof (induction n arbitrary: ps sp ge g)
  case 0
  then show ?case by simp
next
  case (Suc n)
  show ?case
  proof (cases "trial self w h g")
    case (Inl e)
    with Suc.prems(3) show ?thesis by simp
  next
    case (Inr r)
    obtain out g1 where r: "r = (out, g1)" by (cases r)
    have sub: "sset (uniforms g1) \<subseteq> sset (uniforms g)"
      using Inr r by (intro trial_uniforms_subset [of self w h g out g1]) simp
    with Suc.prems(1) have u1: "\<forall>u\<in>sset (uniforms g1). 0 \<le> u \<and> u < 1" by blast
    show ?thesis
    proof (cases out)
      case GeometricRejection
      with Suc.prems(3) Inr r
      have "run_trials self w h n (ps, sp, ge + 1, g1) = Inr (ps', sp', ge', g')" by simp
      from Suc.IH [OF u1 Suc.prems(2) this] show ?thesis .
    next
      case SeptalAbsorption
      with Suc.prems(3) Inr r
      have "run_trials self w h n (ps, sp + 1, ge, g1) = Inr (ps', sp', ge', g')" by simp
      from Suc.IH [OF u1 Suc.prems(2) this] show ?thesis .
    next
      case (Detected ph)
      with Inr r have "trial self w h g = Inr (Detected ph, g1)" by simp
      from trial_detected_in_face [OF L w h Suc.prems(1) this] Suc.prems(2)
      have inv: "\<forall>q\<in>set (ps @ [ph]). \<bar>photon_x q\<bar> \<le> w / 2 + hole_diameter (params self) / 2
                   \<and> \<bar>photon_y q\<bar> \<le> h / 2 + hole_diameter (params self) / 2" by simp
      from Detected Suc.prems(3) Inr r
      have "run_trials self w h n (ps @ [ph], sp, ge, g1) = Inr (ps', sp', ge', g')" by simp
      from Suc.IH [OF u1 inv this] show ?thesis .
    qed
  qed
qed

text \<open>
  Claim C10. With a positive hole length, the final position of a detected photon
  differs from its entry position by at most half a hole diameter along each transverse
  axis; and when the raw uniform variates lie in \<open>[0, 1)\<close> and the detector face has
  non-negative width and height, every detected photon of a simulation lies within the
  detector face extended by half a hole diameter on each side.
\<close>

theorem detected_within_half_diameter:
  assumes "0 < hole_length (params self)"
  shows "(\<forall>ph g'. transport self w h theta phi x0 y0 g = Inr (Detected ph, g')
            \<longrightarrow> \<bar>photon_x ph - x0\<bar> \<le> hole_diameter (params self) / 2
              \<and> \<bar>photon_y ph - y0\<bar> \<le> hole_diameter (params self) / 2)
       \<and> (\<forall>r g1. (\<forall>u\<in>sset (uniforms g0). 0 \<le> u \<and> u < 1)
              \<and> 0 \<le> of_int (num_holes_x (params self))
                       * (hole_diameter (params self) + septal_thickness (params self))
              \<and> 0 \<le> of_int (num_holes_y (params self))
                       * (hole_diameter (params self) + septal_thickness (params self))
              \<and> simulate_photon_transport self N source_distance g0 = Inr (r, g1)
            \<longrightarrow> (\<forall>q\<in>set (detected_photons r).
                  \<bar>photon_x q\<bar> \<le> of_int (num_holes_x (params self))
                       * (hole_diameter (params self) + septal_thickness (params self)) / 2
                       + hole_diameter (params self) / 2
                \<and> \<bar>photon_y q\<bar> \<le> of_int (num_holes_y (params self))
                       * (hole_diameter (params self) + septal_thickness (params self)) / 2
                       + hole_diameter (params self) / 2))"
proof (intro conjI allI impI)
  fix ph g'
  assume "transport self w h theta phi x0 y0 g = Inr (Detected ph, g')"
  from detected_offsets [OF assms this]
  show "\<bar>photon_x ph - x0\<bar> \<le> hole_diameter (params self) / 2"
   and "\<bar>photon_y ph - y0\<bar> \<le> hole_diameter (params self) / 2" by blast+
next
  fix r g1
  let ?W = "of_int (num_holes_x (params self))
              * (hole_diameter (params self) + septal_thickness (params self))"
  let ?H = "of_int (num_holes_y (params self))
              * (hole_diameter (params self) + septal_thickness (params self))"
  assume a: "(\<forall>u\<in>sset (uniforms g0). 0 \<le> u \<and> u < 1) \<and> 0 \<le> ?W \<and> 0 \<le> ?H
             \<and> simulate_photon_transport self N source_distance g0 = Inr (r, g1)"
  then have u: "\<forall>u\<in>sset (uniforms g0). 0 \<le> u \<and> u < 1" and W: "0 \<le> ?W" and H: "0 \<le> ?H"
    and sim: "simulate_photon_transport self N source_distance g0 = Inr (r, g1)" by blast+
  from sim obtain ps sp ge where
    run: "run_trials self ?W ?H (nat N) ([], 0, 0, g0) = Inr (ps, sp, ge, g1)"
    and r: "detected_photons r = ps"
    by (auto simp add: simulate_photon_transport_def Let_def split: sum.splits)
  have init: "\<forall>q\<in>set []. \<bar>photon_x q\<bar> \<le> ?W / 2 + hole_diameter (params self) / 2
                   \<and> \<bar>photon_y q\<bar> \<le> ?H / 2 + hole_diameter (params self) / 2" by simp
  from run_trials_in_face [OF assms W H u init run] r
  show "\<forall>q\<in>set (detected_photons r).
          \<bar>photon_x q\<bar> \<le> ?W / 2 + hole_diameter (params self) / 2
        \<and> \<bar>photon_y q\<bar> \<le> ?H / 2 + hole_diameter (params self) / 2" by simp
qed

theorem detected_within_half_diameter_witness:
  "0 < hole_length (params main_simulator)
   \<and> transport main_simulator 170 170 0 pi 0 0 centred_rng = Inr (Detected axial_photon, centred_rng)
   \<and> \<bar>photon_x axial_photon - 0\<bar> \<le> hole_diameter (params main_simulator) / 2
   \<and> \<bar>photon_y axial_photon - 0\<bar> \<le> hole_diameter (params main_simulator) / 2
   \<and> sset (uniforms centred_rng) = {1 / 2}
   \<and> simulate_photon_transport main_simulator 2 100 centred_rng =
       Inr (\<lparr>detected_photons = [axial_photon, axial_photon], total_photons = 2,
             detected_count = 2, septal_penetration = 0, geometric_rejection = 0\<rparr>, centred_rng)
   \<and> \<bar>photon_x axial_photon\<bar> \<le> 170 / 2 + hole_diameter (params main_simulator) / 2
   \<and> \<bar>photon_y axial_photon\<bar> \<le> 170 / 2 + hole_diameter (params main_simulator) / 2"
proof -
  have h1: "0 < hole_length (params main_simulator)"
    by (simp add: main_simulator_def main_params_def)
  have d: "transport main_simulator 170 170 0 pi 0 0 centred_rng = Inr (Detected axial_photon, centred_rng)"
    by (rule centred_transport)
  have s: "sset (uniforms centred_rng) = {1 / 2}" by (simp add: centred_rng_def)
  have u: "\<forall>u\<in>sset (uniforms centred_rng). 0 \<le> u \<and> u < 1" by (simp add: s)
  have W: "of_int (num_holes_x (params main_simulator))
      * (hole_diameter (params main_simulator) + septal_thickness (params main_simulator)) = 170"
    by (simp add: main_simulator_def main_params_def)
  have H: "of_int (num_holes_y (params main_simulator))
      * (hole_diameter (params main_simulator) + septal_thickness (params main_simulator)) = 170"
    by (simp add: main_simulator_def main_params_def)
  note t = detected_within_half_diameter [OF h1, of 170 170 0 pi 0 0 centred_rng centred_rng
      2 100, unfolded W H]
  from t d have off: "\<bar>photon_x axial_photon - 0\<bar> \<le> hole_diameter (params main_simulator) / 2
     \<and> \<bar>photon_y axial_photon - 0\<bar> \<le> hole_diameter (params main_simulator) / 2" by blast
  from t u centred_simulate
  have "\<forall>q\<in>set [axial_photon, axial_photon].
      \<bar>photon_x q\<bar> \<le> 170 / 2 + hole_diameter (params main_simulator) / 2
    \<and> \<bar>photon_y q\<bar> \<le> 170 / 2 + hole_diameter (params main_simulator) / 2"
    by fastforce
  then have face: "\<bar>photon_x axial_photon\<bar> \<le> 170 / 2 + hole_diameter (params main_simulator) / 2
    \<and> \<bar>photon_y axial_photon\<bar> \<le> 170 / 2 + hole_diameter (params main_simulator) / 2" by simp
  from h1 d off s centred_simulate face show ?thesis by blast
qed

section \<open>Construction\<close>

lemma MATERIALS_known:
  "MATERIALS n \<noteq> None \<longleftrightarrow> n \<in> {''lead'', ''tungsten'', ''brass''}"
  by (simp add: MATERIALS_def)

text \<open>
  Claim C4, as the code has it. A configuration is a plain record: building one checks
  nothing and succeeds for every hole diameter and hole length, zero and negative ones
  included. Building the simulator looks the material up: with a name among lead,
  tungsten and brass it succeeds whatever the dimensions, and with any other name it
  fails, at construction time, with \<open>KeyError\<close>.
\<close>

theorem simulator_construction_rule:
  "(material p \<in> {''lead'', ''tungsten'', ''brass''}
      \<longrightarrow> (\<exists>m. MATERIALS (material p) = Some m
               \<and> SPECTSimulator_init p = Inr \<lparr>params = p, sim_material = m\<rparr>))
   \<and> (material p \<notin> {''lead'', ''tungsten'', ''brass''}
      \<longrightarrow> SPECTSimulator_init p = Inl (KeyError (material p)))"
  using MATERIALS_known [of "material p"]
  by (auto simp add: SPECTSimulator_init_def split: option.splits)

theorem simulator_construction_rule_witness:
  "material main_params \<in> {''lead'', ''tungsten'', ''brass''}
   \<and> SPECTSimulator_init main_params = Inr main_simulator
   \<and> material gold_params \<notin> {''lead'', ''tungsten'', ''brass''}
   \<and> SPECTSimulator_init gold_params = Inl (KeyError ''gold'')"
proof -
  have k: "material main_params \<in> {''lead'', ''tungsten'', ''brass''}"
    by (simp add: main_params_def)
  have m: "MATERIALS (material main_params) = Some lead"
    by (simp add: main_params_def MATERIALS_def lead_def)
  have u: "material gold_params \<notin> {''lead'', ''tungsten'', ''brass''}"
    by (simp add: gold_params_def)
  from simulator_construction_rule [of main_params] k m
  have a: "SPECTSimulator_init main_params = Inr main_simulator"
    by (auto simp add: main_simulator_def)
  from simulator_construction_rule [of gold_params] u
  have b: "SPECTSimulator_init gold_params = Inl (KeyError ''gold'')"
    by (simp add: gold_params_def)
  from k a u b show ?thesis by blast
qed

text \<open>
  Claim C4 as stated fails: the configuration with a hole diameter and a hole length of
  zero is accepted, so is the simulator built from it, and the division by the hole
  length raises in the first trial of the simulation.
\<close>

theorem degenerate_geometry_is_constructed:
  "hole_diameter degenerate_params = 0 \<and> hole_length degenerate_params = 0
   \<and> SPECTSimulator_init degenerate_params
       = Inr \<lparr>params = degenerate_params, sim_material = lead\<rparr>
   \<and> simulate_photon_transport \<lparr>params = degenerate_params, sim_material = lead\<rparr> 1 100 centred_rng
       = Inl ZeroDivisionError"
  by (simp add: SPECTSimulator_init_def MATERIALS_def lead_def degenerate_params_def
      simulate_photon_transport_def trial_unfold transport_def truediv_def Let_def)

section \<open>Properties of the metrics engine\<close>

subsection \<open>The two return statements\<close>

lemma calculate_metrics_nonempty:
  assumes "detected_photons r \<noteq> []" "total_photons r \<noteq> 0"
  shows "calculate_metrics r =
     Inr [(''sensitivity'', real (length (detected_photons r)) / of_int (total_photons r) * 100),
          (''spatial_resolution_fwhm'', calculate_fwhm (map photon_x (detected_photons r))),
          (''uniformity'', calculate_uniformity (detected_photons r) 10),
          (''contrast_to_noise'', sqrt (real (length (detected_photons r)))),
          (''septal_penetration_fraction'',
             of_int (septal_penetration r) / of_int (total_photons r) * 100),
          (''geometric_efficiency'',
             of_int (total_photons r - geometric_rejection r) / of_int (total_photons r) * 100)]"
  using assms by (simp add: calculate_metrics_def Let_def)

lemma calculate_metrics_empty:
  assumes "detected_photons r = []"
  shows "calculate_metrics r = Inr no_counts_metrics"
  using assms by (simp add: calculate_metrics_def no_counts_metrics_def)

text \<open>
  A result of \<open>simulate_photon_transport\<close> never has detected photons with a total of
  zero, so the metrics of a simulation never raise.
\<close>

lemma simulate_result_shape:
  assumes "simulate_photon_transport self N source_distance g = Inr (r, g')"
  shows "total_photons r \<noteq> 0 \<or> detected_photons r = []"
proof (cases "N = 0")
  case True
  with assms show ?thesis
    by (auto simp add: simulate_photon_transport_def Let_def)
next
  case False
  with assms show ?thesis
    by (auto simp add: simulate_photon_transport_def Let_def split: sum.splits)
qed

text \<open>
  Claim C3, evaluated. A run of zero photons returns the empty result without an error,
  and the metrics of the empty result are the four-entry dictionary: the septal
  penetration fraction and the geometric efficiency, which the other return statement
  provides and the callers read, are absent.
\<close>

theorem no_counts_metrics_lack_two_fields:
  "simulate_photon_transport main_simulator 0 100 centred_rng = Inr (empty_result, centred_rng)
   \<and> calculate_metrics empty_result = Inr no_counts_metrics
   \<and> map_of no_counts_metrics ''septal_penetration_fraction'' = None
   \<and> map_of no_counts_metrics ''geometric_efficiency'' = None"
  by (simp add: simulate_photon_transport_def calculate_metrics_def empty_result_def
      no_counts_metrics_def)

text \<open>
  Claim C5, evaluated. Where a photon is detected the three percentages are the ratios
  the claim gives: in the run of four photons the sensitivity is 25, the septal
  penetration fraction 25 and the geometric efficiency 50. The only result with a total
  of zero that a simulation returns is the empty result; there nothing is divided and
  the sensitivity is zero, but the septal penetration fraction and the geometric
  efficiency are absent instead of zero.
\<close>

theorem zero_total_percentages_absent:
  "simulate_photon_transport main_simulator 0 100 centred_rng = Inr (empty_result, centred_rng)
   \<and> total_photons empty_result = 0
   \<and> calculate_metrics empty_result = Inr no_counts_metrics
   \<and> map_of no_counts_metrics ''sensitivity'' = Some 0
   \<and> map_of no_counts_metrics ''septal_penetration_fraction'' = None
   \<and> map_of no_counts_metrics ''geometric_efficiency'' = None
   \<and> (\<exists>m. calculate_metrics four_trial_result = Inr m
         \<and> map_of m ''sensitivity'' = Some 25
         \<and> map_of m ''septal_penetration_fraction'' = Some 25
         \<and> map_of m ''geometric_efficiency'' = Some 50)"
proof -
  have run: "simulate_photon_transport main_simulator 0 100 centred_rng
               = Inr (empty_result, centred_rng)"
    by (simp add: simulate_photon_transport_def empty_result_def)
  have tot: "total_photons empty_result = 0" by (simp add: empty_result_def)
  have "detected_photons empty_result = []" by (simp add: empty_result_def)
  then have met: "calculate_metrics empty_result = Inr no_counts_metrics"
    by (rule calculate_metrics_empty)
  have keys: "map_of no_counts_metrics ''sensitivity'' = Some 0
      \<and> map_of no_counts_metrics ''septal_penetration_fraction'' = None
      \<and> map_of no_counts_metrics ''geometric_efficiency'' = None"
    by (simp add: no_counts_metrics_def)
  have ne: "detected_photons four_trial_result \<noteq> []" by (simp add: four_trial_result_def)
  have t4: "total_photons four_trial_result \<noteq> 0" by (simp add: four_trial_result_def)
  have four: "\<exists>m. calculate_metrics four_trial_result = Inr m
         \<and> map_of m ''sensitivity'' = Some 25
         \<and> map_of m ''septal_penetration_fraction'' = Some 25
         \<and> map_of m ''geometric_efficiency'' = Some 50"
    unfolding calculate_metrics_nonempty [OF ne t4] by (simp add: four_trial_result_def)
  from run tot met keys four show ?thesis by blast
qed

subsection \<open>Spatial resolution\<close>

lemma np_std_nonneg: "0 \<le> np_std vs"
proof -
  have "0 \<le> sum_list (map (\<lambda>v. (v - np_mean vs)\<^sup>2) vs)"
    by (rule sum_list_nonneg) auto
  then have "0 \<le> np_mean (map (\<lambda>v. (v - np_mean vs)\<^sup>2) vs)"
    by (simp add: np_mean_def)
  then show ?thesis by (simp add: np_std_def)
qed

lemma calculate_fwhm_nonneg: "0 \<le> calculate_fwhm positions"
  using np_std_nonneg [of positions] by (simp add: calculate_fwhm_def Let_def)

text \<open>
  Claim C6. For every result whose metrics are computed (a non-zero total, or no
  detected photon: every result of a simulation), the spatial resolution is present; it
  is 2.355 times the standard deviation of the detected x positions when at least ten
  photons are detected, zero when fewer are, and never negative.
\<close>

theorem spatial_resolution_rule:
  assumes "total_photons r \<noteq> 0 \<or> detected_photons r = []"
  shows "\<exists>m v. calculate_metrics r = Inr m
           \<and> map_of m ''spatial_resolution_fwhm'' = Some v
           \<and> (10 \<le> length (detected_photons r)
                \<longrightarrow> v = 2.355 * np_std (map photon_x (detected_photons r)))
           \<and> (length (detected_photons r) < 10 \<longrightarrow> v = 0)
           \<and> 0 \<le> v"
proof (cases "detected_photons r = []")
  case True
  then show ?thesis by (simp add: calculate_metrics_empty no_counts_metrics_def)
next
  case False
  with assms have t: "total_photons r \<noteq> 0" by simp
  show ?thesis
    using calculate_fwhm_nonneg [of "map photon_x (detected_photons r)"]
    by (simp add: calculate_metrics_nonempty [OF False t])
      (simp add: calculate_fwhm_def Let_def)
qed

theorem spatial_resolution_rule_witness:
  "total_photons ten_photon_result \<noteq> 0
   \<and> 10 \<le> length (detected_photons ten_photon_result)
   \<and> (\<exists>m. calculate_metrics ten_photon_result = Inr m
         \<and> map_of m ''spatial_resolution_fwhm''
             = Some (2.355 * np_std (map photon_x (detected_photons ten_photon_result))))
   \<and> detected_photons empty_result = []
   \<and> (\<exists>m. calculate_metrics empty_result = Inr m
         \<and> map_of m ''spatial_resolution_fwhm'' = Some 0)"
proof -
  have h1: "total_photons ten_photon_result \<noteq> 0" by (simp add: ten_photon_result_def)
  have l1: "10 \<le> length (detected_photons ten_photon_result)"
    by (simp add: ten_photon_result_def)
  have h2: "detected_photons empty_result = []" by (simp add: empty_result_def)
  from spatial_resolution_rule [of ten_photon_result] h1 l1
  have a: "\<exists>m. calculate_metrics ten_photon_result = Inr m
         \<and> map_of m ''spatial_resolution_fwhm''
             = Some (2.355 * np_std (map photon_x (detected_photons ten_photon_result)))"
    by blast
  from spatial_resolution_rule [of empty_result] h2
  have b: "\<exists>m. calculate_metrics empty_result = Inr m
         \<and> map_of m ''spatial_resolution_fwhm'' = Some 0"
    by auto
  from h1 l1 a h2 b show ?thesis by blast
qed

subsection \<open>The histogram\<close>

text \<open>Every value of the data falls into one of the bins between the outer edges.\<close>

lemma linspace_last:
  assumes "0 < bins"
  shows "last (np_linspace lo hi (bins + 1)) = hi"
proof -
  have "last (map (\<lambda>k. lo + real k * ((hi - lo) / real bins)) ([0..<bins] @ [bins]))
        = lo + real bins * ((hi - lo) / real bins)"
    by (simp only: map_append last_snoc list.map)
  also have "\<dots> = hi" using assms by simp
  finally show ?thesis by (simp add: np_linspace_def)
qed

lemma linspace_set:
  "set (np_linspace lo hi (bins + 1))
     = (\<lambda>k. lo + real k * ((hi - lo) / real bins)) ` {0..<bins + 1}"
  unfolding np_linspace_def by (simp del: upt_Suc)

lemma linspace_first_mem: "lo \<in> set (np_linspace lo hi (bins + 1))"
proof -
  have "lo + real (0::nat) * ((hi - lo) / real bins)
          \<in> (\<lambda>k. lo + real k * ((hi - lo) / real bins)) ` {0..<bins + 1}"
    by (rule imageI) simp
  then show ?thesis by (simp only: linspace_set) simp
qed

lemma linspace_le_stop:
  assumes "0 < bins" "lo \<le> hi" "e \<in> set (np_linspace lo hi (bins + 1))"
  shows "e \<le> hi"
proof -
  from assms(3) have "e \<in> (\<lambda>k. lo + real k * ((hi - lo) / real bins)) ` {0..<bins + 1}"
    by (simp only: linspace_set)
  then obtain k where k': "k \<in> {0..<bins + 1}" and e: "e = lo + real k * ((hi - lo) / real bins)"
    by (rule imageE)
  from k' have k: "k \<le> bins" by simp
  have "real k * ((hi - lo) / real bins) \<le> real bins * ((hi - lo) / real bins)"
    using k assms by (intro mult_right_mono) simp_all
  also have "\<dots> = hi - lo" using assms(1) by simp
  finally show ?thesis by (simp add: e)
qed

lemma bin_of_range:
  assumes bins: "0 < bins" and lohi: "lo < hi" and lo: "lo \<le> v" and hi: "v \<le> hi"
  shows "1 \<le> bin_of (np_linspace lo hi (bins + 1)) v
       \<and> bin_of (np_linspace lo hi (bins + 1)) v \<le> bins"
proof -
  let ?E = "np_linspace lo hi (bins + 1)"
  have len: "length ?E = bins + 1" by (simp add: np_linspace_def)
  have last: "last ?E = hi" using bins by (rule linspace_last)
  have ne: "?E \<noteq> []" using len by auto
  show ?thesis
  proof (cases "v = hi")
    case True
    have lohi': "lo \<le> hi" using lohi by simp
    have "\<forall>e\<in>set ?E. e \<le> v"
      using linspace_le_stop [OF bins lohi'] True by blast
    then have "filter (\<lambda>e. e \<le> v) ?E = ?E" by (simp only: filter_True)
    then have "searchsorted_right ?E v = bins + 1" by (simp only: searchsorted_right_def len)
    with True last bins show ?thesis by (simp add: bin_of_def)
  next
    case False
    with hi have lt: "v < hi" by simp
    have "lo \<in> set (filter (\<lambda>e. e \<le> v) ?E)" using linspace_first_mem lo by simp
    then have pos: "0 < searchsorted_right ?E v"
      unfolding searchsorted_right_def by (rule length_pos_if_in_set)
    have "hi \<in> set ?E" using last_in_set [OF ne] last by simp
    moreover have "\<not> hi \<le> v" using lt by simp
    ultimately have "length (filter (\<lambda>e. e \<le> v) ?E) < length ?E"
      by (rule length_filter_less)
    then have "searchsorted_right ?E v < bins + 1" by (simp only: searchsorted_right_def len)
    then have "searchsorted_right ?E v \<le> bins" by simp
    with pos False last show ?thesis by (simp add: bin_of_def)
  qed
qed

lemma bin_edges_range:
  assumes bins: "0 < bins" and v: "v \<in> set vs"
  shows "1 \<le> bin_of (bin_edges vs bins) v \<and> bin_of (bin_edges vs bins) v \<le> bins"
proof -
  have lo: "Min (set vs) \<le> v" using v by simp
  have hi: "v \<le> Max (set vs)" using v by simp
  show ?thesis
  proof (cases "Min (set vs) = Max (set vs)")
    case True
    have "1 \<le> bin_of (np_linspace (Min (set vs) - 0.5) (Max (set vs) + 0.5) (bins + 1)) v
       \<and> bin_of (np_linspace (Min (set vs) - 0.5) (Max (set vs) + 0.5) (bins + 1)) v \<le> bins"
      using lo hi True by (intro bin_of_range [OF bins]) simp_all
    with True show ?thesis by (simp add: bin_edges_def Let_def)
  next
    case False
    with lo hi have "Min (set vs) < Max (set vs)" by linarith
    from bin_of_range [OF bins this lo hi] False show ?thesis
      by (simp add: bin_edges_def Let_def)
  qed
qed

text \<open>Hence the counts of the grid add up to the number of points.\<close>

lemma sum_list_concat_rows:
  "sum_list (concat xss) = sum_list (map sum_list (xss :: real list list))"
  by (induction xss) simp_all

lemma grid_sum_as_sets:
  "sum_list (concat (map (\<lambda>i. map (\<lambda>j. f i j) [0..<m]) [0..<m]))
     = (\<Sum>i\<in>{0..<m}. \<Sum>j\<in>{0..<m}. (f i j :: real))"
  by (simp add: sum_list_concat_rows comp_def interv_sum_list_conv_sum_set_nat del: upt_Suc)

lemma grid_indicator:
  assumes "1 \<le> a" "a \<le> m" "1 \<le> b" "b \<le> m"
  shows "(\<Sum>i\<in>{0..<m}. \<Sum>j\<in>{0..<m}. if (a, b) = (Suc i, Suc j) then 1 else 0) = (1::real)"
proof -
  obtain i0 where a: "a = Suc i0" using assms(1) by (cases a) auto
  obtain j0 where b: "b = Suc j0" using assms(3) by (cases b) auto
  have i0: "i0 \<in> {0..<m}" and j0: "j0 \<in> {0..<m}" using assms a b by auto
  have "(\<Sum>i\<in>{0..<m}. \<Sum>j\<in>{0..<m}. if (a, b) = (Suc i, Suc j) then 1 else 0)
      = (\<Sum>i\<in>{0..<m}. if i0 = i then (\<Sum>j\<in>{0..<m}. if j0 = j then 1 else 0) else (0::real))"
    by (intro sum.cong refl) (simp add: a b)
  also have "\<dots> = (\<Sum>j\<in>{0..<m}. if j0 = j then 1 else 0)"
    using i0 by (simp add: sum.delta')
  also have "\<dots> = 1" using j0 by (simp add: sum.delta')
  finally show ?thesis .
qed

lemma grid_count:
  "\<forall>c\<in>set cs. 1 \<le> fst c \<and> fst c \<le> m \<and> 1 \<le> snd c \<and> snd c \<le> m
   \<Longrightarrow> (\<Sum>i\<in>{0..<m}. \<Sum>j\<in>{0..<m}. real (count_list cs (Suc i, Suc j))) = real (length cs)"
proof (induction cs)
  case Nil
  show ?case by simp
next
  case (Cons c cs)
  obtain a b where c: "c = (a, b)" by (cases c)
  from Cons.prems c have ab: "1 \<le> a" "a \<le> m" "1 \<le> b" "b \<le> m" by auto
  from Cons.prems have rest: "\<forall>c\<in>set cs. 1 \<le> fst c \<and> fst c \<le> m \<and> 1 \<le> snd c \<and> snd c \<le> m"
    by simp
  have "(\<Sum>i\<in>{0..<m}. \<Sum>j\<in>{0..<m}. real (count_list (c # cs) (Suc i, Suc j)))
      = (\<Sum>i\<in>{0..<m}. \<Sum>j\<in>{0..<m}.
           real (count_list cs (Suc i, Suc j)) + (if (a, b) = (Suc i, Suc j) then 1 else 0))"
    by (intro sum.cong refl) (simp add: c)
  also have "\<dots> = (\<Sum>i\<in>{0..<m}. \<Sum>j\<in>{0..<m}. real (count_list cs (Suc i, Suc j)))
      + (\<Sum>i\<in>{0..<m}. \<Sum>j\<in>{0..<m}. if (a, b) = (Suc i, Suc j) then 1 else 0)"
    by (simp only: sum.distrib)
  also have "\<dots> = real (length cs) + 1"
    by (simp only: Cons.IH [OF rest] grid_indicator [OF ab])
  finally show ?case by simp
qed

lemma histogram2d_length: "length (concat (histogram2d xs ys bins)) = bins * bins"
  by (simp add: histogram2d_def Let_def length_concat comp_def sum_list_triv del: upt_Suc)

lemma histogram2d_total:
  assumes bins: "0 < bins" and len: "length xs = length ys"
  shows "sum_list (concat (histogram2d xs ys bins)) = real (length xs)"
proof -
  let ?cells = "zip (map (bin_of (bin_edges xs bins)) xs) (map (bin_of (bin_edges ys bins)) ys)"
  have "\<forall>c\<in>set ?cells. 1 \<le> fst c \<and> fst c \<le> bins \<and> 1 \<le> snd c \<and> snd c \<le> bins"
  proof
    fix c assume c: "c \<in> set ?cells"
    obtain a b where ab: "c = (a, b)" by (cases c)
    from c ab have "a \<in> set (map (bin_of (bin_edges xs bins)) xs)"
      by (auto dest: set_zip_leftD)
    then obtain x where x: "x \<in> set xs" and a: "a = bin_of (bin_edges xs bins) x" by auto
    from c ab have "b \<in> set (map (bin_of (bin_edges ys bins)) ys)"
      by (auto dest: set_zip_rightD)
    then obtain y where y: "y \<in> set ys" and b: "b = bin_of (bin_edges ys bins) y" by auto
    from bin_edges_range [OF bins x] bin_edges_range [OF bins y] a b ab
    show "1 \<le> fst c \<and> fst c \<le> bins \<and> 1 \<le> snd c \<and> snd c \<le> bins" by simp
  qed
  from grid_count [OF this] len
  show ?thesis by (simp add: histogram2d_def Let_def grid_sum_as_sets del: upt_Suc)
qed

subsection \<open>Uniformity\<close>

lemma uniformity_histogram:
  assumes "10 \<le> length photons"
  shows "length (concat (histogram2d (map photon_x photons) (map photon_y photons) 10)) = 100"
    and "sum_list (concat (histogram2d (map photon_x photons) (map photon_y photons) 10))
           = real (length photons)"
    and "0 < np_mean (concat (histogram2d (map photon_x photons) (map photon_y photons) 10))"
proof -
  let ?H = "concat (histogram2d (map photon_x photons) (map photon_y photons) 10)"
  show len: "length ?H = 100" by (simp add: histogram2d_length)
  have "sum_list ?H = real (length (map photon_x photons))"
    by (rule histogram2d_total) simp_all
  then show tot: "sum_list ?H = real (length photons)" by simp
  from assms have "0 < length photons" by linarith
  then have "0 < real (length photons)" by (simp only: of_nat_0_less_iff)
  then show "0 < np_mean ?H" by (simp add: np_mean_def len tot)
qed

lemma calculate_uniformity_enough:
  assumes "10 \<le> length photons"
  shows "calculate_uniformity photons 10 =
     max 0 ((1 - np_std (concat (histogram2d (map photon_x photons) (map photon_y photons) 10))
                 / np_mean (concat (histogram2d (map photon_x photons) (map photon_y photons) 10)))
            * 100)"
  using assms uniformity_histogram(3) [OF assms]
  by (simp add: calculate_uniformity_def Let_def)

lemma calculate_uniformity_bounds:
  "0 \<le> calculate_uniformity photons 10 \<and> calculate_uniformity photons 10 \<le> 100"
proof (cases "10 \<le> length photons")
  case False
  then show ?thesis by (simp add: calculate_uniformity_def)
next
  case True
  let ?H = "concat (histogram2d (map photon_x photons) (map photon_y photons) 10)"
  have m: "0 < np_mean ?H" using True by (rule uniformity_histogram(3))
  have q: "0 \<le> np_std ?H / np_mean ?H" using np_std_nonneg [of ?H] m by simp
  define u where "u = np_std ?H / np_mean ?H"
  from q have "(1 - u) * 100 \<le> 100" unfolding u_def [symmetric] by simp
  then have "max 0 ((1 - u) * 100) \<le> 100 \<and> 0 \<le> max 0 ((1 - u) * 100)" by simp
  then show ?thesis unfolding calculate_uniformity_enough [OF True] u_def by simp
qed

text \<open>
  Claim C7. With fewer than ten detected photons the uniformity is zero. With ten or
  more, the detected positions are binned into a grid of ten by ten bins, whose hundred
  counts add up to the number of detected photons, so that their mean is positive, and
  the uniformity is \<open>max 0 ((1 - std / mean) * 100)\<close> of these counts. It is zero whenever
  the mean is not positive, it lies between 0 and 100, and it is the value the metrics
  report.
\<close>

theorem uniformity_rule:
  "(let photons = detected_photons r;
        H = concat (histogram2d (map photon_x photons) (map photon_y photons) 10)
    in (length photons < 10 \<longrightarrow> calculate_uniformity photons 10 = 0)
     \<and> (10 \<le> length photons
          \<longrightarrow> length H = 100 \<and> sum_list H = real (length photons) \<and> 0 < np_mean H
            \<and> calculate_uniformity photons 10 = max 0 ((1 - np_std H / np_mean H) * 100))
     \<and> (\<not> 0 < np_mean H \<longrightarrow> calculate_uniformity photons 10 = 0)
     \<and> 0 \<le> calculate_uniformity photons 10 \<and> calculate_uniformity photons 10 \<le> 100
     \<and> (photons \<noteq> [] \<and> total_photons r \<noteq> 0
          \<longrightarrow> (\<exists>m. calculate_metrics r = Inr m
                \<and> map_of m ''uniformity'' = Some (calculate_uniformity photons 10))))"
proof -
  let ?ps = "detected_photons r"
  let ?H = "concat (histogram2d (map photon_x ?ps) (map photon_y ?ps) 10)"
  have a: "length ?ps < 10 \<longrightarrow> calculate_uniformity ?ps 10 = 0"
    by (simp add: calculate_uniformity_def)
  have b: "10 \<le> length ?ps
          \<longrightarrow> length ?H = 100 \<and> sum_list ?H = real (length ?ps) \<and> 0 < np_mean ?H
            \<and> calculate_uniformity ?ps 10 = max 0 ((1 - np_std ?H / np_mean ?H) * 100)"
    using uniformity_histogram [of ?ps] calculate_uniformity_enough [of ?ps] by blast
  have c: "\<not> 0 < np_mean ?H \<longrightarrow> calculate_uniformity ?ps 10 = 0"
    by (simp add: calculate_uniformity_def Let_def)
  have d: "0 \<le> calculate_uniformity ?ps 10 \<and> calculate_uniformity ?ps 10 \<le> 100"
    by (rule calculate_uniformity_bounds)
  have e: "?ps \<noteq> [] \<and> total_photons r \<noteq> 0
          \<longrightarrow> (\<exists>m. calculate_metrics r = Inr m
                \<and> map_of m ''uniformity'' = Some (calculate_uniformity ?ps 10))"
    by (simp add: calculate_metrics_nonempty)
  from a b c d e show ?thesis unfolding Let_def by blast
qed

theorem uniformity_rule_witness:
  "10 \<le> length (detected_photons ten_photon_result)
   \<and> total_photons ten_photon_result \<noteq> 0
   \<and> detected_photons ten_photon_result \<noteq> []
   \<and> sum_list (concat (histogram2d (map photon_x (detected_photons ten_photon_result))
                                   (map photon_y (detected_photons ten_photon_result)) 10)) = 10
   \<and> length (concat (histogram2d (map photon_x (detected_photons ten_photon_result))
                                 (map photon_y (detected_photons ten_photon_result)) 10)) = 100
   \<and> (\<exists>m. calculate_metrics ten_photon_result = Inr m
         \<and> map_of m ''uniformity''
             = Some (calculate_uniformity (detected_photons ten_photon_result) 10))
   \<and> length (detected_photons four_trial_result) < 10
   \<and> calculate_uniformity (detected_photons four_trial_result) 10 = 0"
proof -
  have h1: "10 \<le> length (detected_photons ten_photon_result)"
    by (simp add: ten_photon_result_def)
  have h2: "total_photons ten_photon_result \<noteq> 0" by (simp add: ten_photon_result_def)
  have h3: "detected_photons ten_photon_result \<noteq> []" using h1 by auto
  have n: "real (length (detected_photons ten_photon_result)) = 10"
    by (simp add: ten_photon_result_def)
  have h4: "length (detected_photons four_trial_result) < 10"
    by (simp add: four_trial_result_def)
  note t = uniformity_rule [of ten_photon_result, unfolded Let_def]
  from t h1 n
  have a: "sum_list (concat (histogram2d (map photon_x (detected_photons ten_photon_result))
                                   (map photon_y (detected_photons ten_photon_result)) 10)) = 10"
    by simp
  from t h1
  have b: "length (concat (histogram2d (map photon_x (detected_photons ten_photon_result))
                                 (map photon_y (detected_photons ten_photon_result)) 10)) = 100"
    by blast
  from t h2 h3
  have c: "\<exists>m. calculate_metrics ten_photon_result = Inr m
         \<and> map_of m ''uniformity''
             = Some (calculate_uniformity (detected_photons ten_photon_result) 10)"
    by blast
  from uniformity_rule [of four_trial_result, unfolded Let_def] h4
  have d: "calculate_uniformity (detected_photons four_trial_result) 10 = 0" by blast
  from h1 h2 h3 a b c h4 d show ?thesis by blast
qed

end
